theory Spec2Isabelle
  imports Main "HOL-Library.Word" "HOL-Library.Char_ord" "HOL-Library.List_Lexorder"
begin

unbundle bit_operations_syntax

section \<open>The C and C++ library functions the tool calls\<close>

text \<open>
  A \<^verbatim>\<open>const char*\<close> is modelled by the bytes it points at; the C string it denotes
  ends before the first zero byte (or at the end of the list), and that is what
  \<^verbatim>\<open>os << p\<close> writes and what the constructor of \<^verbatim>\<open>std::string\<close> copies. A
  \<^verbatim>\<open>std::string\<close> is the list of its bytes. Strings are ordered as \<^verbatim>\<open>std::string\<close> orders them:
  lexicographically, byte by byte, bytes compared as unsigned values.
\<close>

abbreviation NL :: string where
  "NL \<equiv> [CHR 0x0A]"

definition c_str :: "string \<Rightarrow> string" where
  "c_str p = takeWhile (\<lambda>c. c \<noteq> CHR 0x00) p"

text \<open>\<^verbatim>\<open>tolower\<close> of \<^verbatim>\<open>ctype.h\<close> in the "C" locale (the tool never calls
  \<^verbatim>\<open>setlocale\<close>), on the values of \<^verbatim>\<open>unsigned char\<close>.\<close>

definition tolower :: "int \<Rightarrow> int" where
  "tolower c = (if 65 \<le> c \<and> c \<le> 90 then c + 32 else c)"

text \<open>The value of a \<^verbatim>\<open>char\<close> promoted to \<^verbatim>\<open>int\<close>, where \<^verbatim>\<open>char\<close> is signed.\<close>

definition char_to_int :: "char \<Rightarrow> int" where
  "char_to_int c = (let n = of_char c in if n < 128 then n else n - 256)"

definition isspace :: "char \<Rightarrow> bool" where
  "isspace c = (c = CHR '' '' \<or> (9 \<le> (of_char c :: nat) \<and> (of_char c :: nat) \<le> 13))"

definition isdigit :: "char \<Rightarrow> bool" where
  "isdigit c = (48 \<le> (of_char c :: nat) \<and> (of_char c :: nat) \<le> 57)"

text \<open>
  \<^verbatim>\<open>atoi(s)\<close> is \<^verbatim>\<open>(int) strtol(s, 0, 10)\<close>: white space is skipped, one sign is
  read, then the longest run of decimal digits; a string with no digits there gives 0.
  \<^verbatim>\<open>strtol\<close> saturates at the bounds of a 64-bit \<^verbatim>\<open>long\<close> and the conversion to
  \<^verbatim>\<open>int\<close> keeps the low 32 bits (C leaves \<^verbatim>\<open>atoi\<close> undefined outside the range of
  \<^verbatim>\<open>int\<close>; this is what the GNU C library does on LP64).
\<close>

fun digits :: "string \<Rightarrow> int \<Rightarrow> int" where
  "digits [] acc = acc"
| "digits (c # cs) acc =
     (if isdigit c then digits cs (10 * acc + (of_char c - 48)) else acc)"

definition strtol10 :: "string \<Rightarrow> int" where
  "strtol10 s =
     (let t = dropWhile isspace s;
          neg = (case t of [] \<Rightarrow> False | c # r \<Rightarrow> c = CHR ''-'');
          u = (case t of [] \<Rightarrow> [] | c # r \<Rightarrow> if c = CHR ''-'' \<or> c = CHR ''+'' then r else t);
          v = digits u 0
      in max (- (2 ^ 63)) (min (2 ^ 63 - 1) (if neg then - v else v)))"

definition atoi :: "string \<Rightarrow> int" where
  "atoi s = sint (word_of_int (strtol10 s) :: 32 word)"

text \<open>\<^verbatim>\<open>os << setw(n) << s\<close> with the stream's defaults: right-adjusted, filled with
  spaces on the left.\<close>

definition setw :: "nat \<Rightarrow> string \<Rightarrow> string" where
  "setw n s = replicate (n - length s) (CHR '' '') @ s"

text \<open>\<^verbatim>\<open>os.write(buf, n)\<close> writes the \<open>n\<close> bytes at \<open>buf\<close>, \<open>buf + 1\<close>, ...; the buffer
  is the memory at the pointer, read by offset.\<close>

definition ostream_write :: "(nat \<Rightarrow> char) \<Rightarrow> int \<Rightarrow> string" where
  "ostream_write buf n = map buf [0..<nat n]"

text \<open>\<^verbatim>\<open>std::map\<close>: the entries in ascending order of their keys. \<^verbatim>\<open>m[k] = v\<close> inserts
  the key or overwrites its value; \<^verbatim>\<open>m.find(k)\<close> is the entry of \<open>k\<close>, or \<open>None\<close> for
  \<^verbatim>\<open>m.end()\<close>.\<close>

fun map_assign :: "'k::linorder \<Rightarrow> 'v \<Rightarrow> ('k \<times> 'v) list \<Rightarrow> ('k \<times> 'v) list" where
  "map_assign k v [] = [(k, v)]"
| "map_assign k v ((k', v') # m) =
     (if k < k' then (k, v) # (k', v') # m
      else if k' < k then (k', v') # map_assign k v m
      else (k', v) # m)"

fun map_find :: "('k::linorder \<times> 'v) list \<Rightarrow> 'k \<Rightarrow> ('k \<times> 'v) option" where
  "map_find [] k = None"
| "map_find ((k', v') # m) k =
     (if k' < k then map_find m k
      else if k < k' then None
      else Some (k', v'))"

section \<open>The command registry\<close>

text \<open>
  Modelled from the spec: the enumeration \<^verbatim>\<open>KfsOp_t\<close> of \<^verbatim>\<open>libclient/KfsOps.h\<close> is
  missing from the sources. The macro \<^verbatim>\<open>InsertAdminOpEntry\<close> names one enumerator
  \<^verbatim>\<open>CMD_META_<name>\<close> per entry, and the spec's catalog gives each entry its own
  opcode identity; only these eight enumerators are modelled.
\<close>

datatype KfsOp_t =
    CMD_META_CHECK_LEASES
  | CMD_META_RECOMPUTE_DIRSIZE
  | CMD_META_DUMP_CHUNKTOSERVERMAP
  | CMD_META_DUMP_CHUNKREPLICATIONCANDIDATES
  | CMD_META_OPEN_FILES
  | CMD_META_GET_CHUNK_SERVERS_COUNTERS
  | CMD_META_GET_CHUNK_SERVER_DIRS_COUNTERS
  | CMD_META_GET_REQUEST_COUNTERS

text \<open>The macro \<^verbatim>\<open>KfsForEachMetaOpId(f)\<close>: the arguments of its applications of \<open>f\<close>,
  in order, each with the enumerator that \<^verbatim>\<open>CMD_META_##name\<close> pastes together.\<close>

definition KfsForEachMetaOpId :: "(string \<times> KfsOp_t \<times> string) list" where
  "KfsForEachMetaOpId =
    [(''CHECK_LEASES'', CMD_META_CHECK_LEASES, ''debug: run chunk leases check''),
     (''RECOMPUTE_DIRSIZE'', CMD_META_RECOMPUTE_DIRSIZE,
        ''debug: recompute directories sizes''),
     (''DUMP_CHUNKTOSERVERMAP'', CMD_META_DUMP_CHUNKTOSERVERMAP,
        ''create chunk server to chunk id map'' @ '' file used by the off line'' @
        '' re-balance utility and layout'' @ '' emulator''),
     (''DUMP_CHUNKREPLICATIONCANDIDATES'', CMD_META_DUMP_CHUNKREPLICATIONCANDIDATES,
        ''debug: list content of the chunks'' @ '' re-replication and recovery queues''),
     (''OPEN_FILES'', CMD_META_OPEN_FILES, ''debug: list all chunk leases''),
     (''GET_CHUNK_SERVERS_COUNTERS'', CMD_META_GET_CHUNK_SERVERS_COUNTERS,
        ''stats: output chunk server counters''),
     (''GET_CHUNK_SERVER_DIRS_COUNTERS'', CMD_META_GET_CHUNK_SERVER_DIRS_COUNTERS,
        ''stats: output chunk directories'' @ '' counters''),
     (''GET_REQUEST_COUNTERS'', CMD_META_GET_REQUEST_COUNTERS,
        ''stats: get meta server request'' @ '' counters'')]"

fun ToLower :: "string \<Rightarrow> string" where
  "ToLower [] = []"
| "ToLower (c # cs) =
     (if c = CHR 0x00 then []
      else char_of (tolower (char_to_int c AND 0xFF)) # ToLower cs)"

type_synonym MetaAdminOps = "(string \<times> (string \<times> (KfsOp_t \<times> string))) list"

text \<open>One expansion of \<^verbatim>\<open>InsertAdminOpEntry(name, comment)\<close>, on the pair of
  \<^verbatim>\<open>sOps\<close> and \<^verbatim>\<open>sMaxCmdNameLen\<close>.\<close>

definition InsertAdminOpEntry ::
  "MetaAdminOps \<times> nat \<Rightarrow> string \<times> KfsOp_t \<times> string \<Rightarrow> MetaAdminOps \<times> nat" where
  "InsertAdminOpEntry st e =
     (case (st, e) of ((sOps, sMaxCmdNameLen), (name, cmd, comment)) \<Rightarrow>
        let theName = ToLower name
        in (map_assign theName (name, (cmd, comment)) sOps,
            max sMaxCmdNameLen (length theName)))"

definition MakeMetaAdminOpsMap :: "MetaAdminOps \<times> nat" where
  "MakeMetaAdminOpsMap = foldl InsertAdminOpEntry ([], 0) KfsForEachMetaOpId"

definition sMetaAdminOpsMap :: MetaAdminOps where
  "sMetaAdminOpsMap = fst MakeMetaAdminOpsMap"

definition sMetaAdminOpMaxLen :: nat where
  "sMetaAdminOpMaxLen = snd MakeMetaAdminOpsMap"

section \<open>The collaborators and the observable effects of a run\<close>

text \<open>\<^verbatim>\<open>ServerLocation\<close>, the request part of a \<^verbatim>\<open>MetaMonOp\<close> (the constructor's two
  arguments) and the fields of the operation that \<^verbatim>\<open>Main\<close> reads after
  \<^verbatim>\<open>Execute\<close> has filled them in.\<close>

record ServerLocation =
  hostname :: string
  port :: int

record MetaMonOp =
  op :: KfsOp_t
  name :: string

record ExecutionOutcome =
  statusMsg :: string
  contentLength :: int
  contentBuf :: "nat \<Rightarrow> char"

datatype LogLevel = kLogLevelDEBUG | kLogLevelINFO

text \<open>
  The classes \<^verbatim>\<open>MonClient\<close> and \<^verbatim>\<open>MsgLogger\<close> and the function
  \<^verbatim>\<open>ErrorCodeToStr\<close> are not part of the sources: their behaviour is a parameter of
  the model. \<open>'c\<close> is the state of the \<^verbatim>\<open>MonClient\<close> object; each member function
  takes it and returns it updated. Nothing is assumed about what they return.
\<close>

record 'c Collaborators =
  SetParameters :: "ServerLocation \<Rightarrow> string option \<Rightarrow> 'c \<Rightarrow> int \<times> 'c"
  SetMaxContentLength :: "int \<Rightarrow> 'c \<Rightarrow> 'c"
  Execute :: "ServerLocation \<Rightarrow> MetaMonOp \<Rightarrow> 'c \<Rightarrow> int \<times> ExecutionOutcome \<times> 'c"
  ErrorCodeToStr :: "int \<Rightarrow> string"

text \<open>The calls a run makes on its collaborators, in the order it makes them.\<close>

datatype call =
    MsgLogger_Init LogLevel
  | MonClient_SetParameters ServerLocation "string option"
  | MonClient_SetMaxContentLength int
  | MonClient_Execute ServerLocation MetaMonOp

text \<open>
  What a run does to the world: the bytes written to standard output (\<^verbatim>\<open>std::cout\<close>)
  and to the error channel (\<open>cerr\<close>: what the tool writes to \<^verbatim>\<open>std::cerr\<close> and what
  \<^verbatim>\<open>getopt\<close> writes to \<^verbatim>\<open>stderr\<close>, in the order written), the messages handed to
  \<^verbatim>\<open>KFS_LOG_STREAM_ERROR\<close>, the calls made, and the state of \<^verbatim>\<open>theClient\<close>.
\<close>

record 'c world =
  cout :: string
  cerr :: string
  log_error :: "string list"
  calls :: "call list"
  theClient :: 'c

section \<open>CmdHelp\<close>

definition CmdHelp :: "string option \<Rightarrow> 'c world \<Rightarrow> 'c world" where
  "CmdHelp inNamePtr w =
     (case inNamePtr of
        Some nm \<Rightarrow>
          (case map_find sMetaAdminOpsMap (ToLower nm) of
             None \<Rightarrow> w\<lparr>cerr := cerr w @ ''no such command: '' @ c_str nm @ NL\<rparr>
           | Some theIt \<Rightarrow>
               w\<lparr>cout := cout w @ fst theIt @ '' -- '' @ c_str (snd (snd (snd theIt))) @ NL\<rparr>)
      | None \<Rightarrow>
          foldl (\<lambda>w' theIt.
                   w'\<lparr>cout := cout w' @ setw sMetaAdminOpMaxLen (fst theIt) @ '' -- '' @
                                c_str (snd (snd (snd theIt))) @ NL\<rparr>)
                w sMetaAdminOpsMap)"

section \<open>Main\<close>

record Options =
  theHelpFlag :: bool
  theServerPtr :: "string option"
  theConfigFileNamePtr :: "string option"
  thePort :: int
  theVerboseLoggingFlag :: bool
  theRetCode :: int

definition Options_init :: Options where
  "Options_init =
     \<lparr>theHelpFlag = False, theServerPtr = None, theConfigFileNamePtr = None,
      thePort = - 1, theVerboseLoggingFlag = False, theRetCode = 0\<rparr>"

text \<open>
  \<^verbatim>\<open>getopt\<close> belongs to the C library. A run is given the sequence of its results up
  to the final \<open>-1\<close>, and the arguments from \<^verbatim>\<open>optind\<close> on. Each result is the
  option character returned, the \<^verbatim>\<open>optarg\<close> it leaves, and the bytes that this call of
  \<^verbatim>\<open>getopt\<close> itself wrote to \<^verbatim>\<open>stderr\<close>. For an option that is not in
  \<^verbatim>\<open>"hm:s:p:vf:"\<close>, and for one of \<^verbatim>\<open>m\<close>, \<^verbatim>\<open>s\<close>, \<^verbatim>\<open>p\<close>, \<^verbatim>\<open>f\<close> whose argument
  is missing, \<^verbatim>\<open>getopt\<close> returns \<open>?\<close> and, since the tool never clears
  \<^verbatim>\<open>opterr\<close>, writes a diagnostic; for the six option characters it writes nothing.
  The \<^verbatim>\<open>while\<close> loop has two effects: the \<^verbatim>\<open>switch\<close> sets the local variables
  (\<open>getopt_loop\<close>), and the diagnostics reach the error channel in the order of the
  calls (\<open>getopt_stderr\<close>), all of them before \<^verbatim>\<open>Main\<close> writes anything.
\<close>

fun getopt_switch :: "Options \<Rightarrow> char \<times> string \<times> string \<Rightarrow> Options" where
  "getopt_switch st (theOptChar, optarg, diagnostic) =
     (if theOptChar = CHR ''m'' \<or> theOptChar = CHR ''s'' then st\<lparr>theServerPtr := Some optarg\<rparr>
      else if theOptChar = CHR ''p'' then st\<lparr>thePort := atoi optarg\<rparr>
      else if theOptChar = CHR ''h'' then st\<lparr>theHelpFlag := True\<rparr>
      else if theOptChar = CHR ''v'' then st\<lparr>theVerboseLoggingFlag := True\<rparr>
      else if theOptChar = CHR ''f'' then st\<lparr>theConfigFileNamePtr := Some optarg\<rparr>
      else st\<lparr>theRetCode := 1\<rparr>)"

definition getopt_loop :: "(char \<times> string \<times> string) list \<Rightarrow> Options" where
  "getopt_loop opts = foldl getopt_switch Options_init opts"

definition getopt_stderr :: "(char \<times> string \<times> string) list \<Rightarrow> string" where
  "getopt_stderr opts = concat (map (\<lambda>r. snd (snd r)) opts)"

definition Usage :: "string \<Rightarrow> string" where
  "Usage argv0 =
     ''Usage: '' @ c_str argv0 @ NL @
     '' -m|-s <meta server host name>'' @ NL @
     '' -p <port>'' @ NL @
     '' -f <config file name>'' @ NL @
     '' [-v]'' @ NL @
     '' --  <cmd> <cmd> ...'' @
     ''Where cmd is one of the following:'' @ NL"

text \<open>The body of the \<^verbatim>\<open>for\<close> loop over the command arguments, on the world and
  the value \<open>retCode\<close> of \<^verbatim>\<open>theRetCode\<close>.\<close>

definition Main_body ::
  "'c Collaborators \<Rightarrow> ServerLocation \<Rightarrow> 'c world \<times> int \<Rightarrow> string \<Rightarrow> 'c world \<times> int" where
  "Main_body K theLocation st arg =
     (case st of (w, retCode) \<Rightarrow>
        (case map_find sMetaAdminOpsMap (ToLower arg) of
           None \<Rightarrow> (w\<lparr>cerr := cerr w @ ''no such command: '' @ c_str arg @ NL\<rparr>, retCode)
         | Some theIt \<Rightarrow>
             let theOp = \<lparr>op = fst (snd (snd theIt)), name = fst (snd theIt)\<rparr>;
                 r = Execute K theLocation theOp (theClient w);
                 theRet = fst r;
                 res = fst (snd r);
                 w1 = w\<lparr>calls := calls w @ [MonClient_Execute theLocation theOp],
                        theClient := snd (snd r)\<rparr>
             in if theRet < 0 then
                  (w1\<lparr>log_error := log_error w1 @
                         [statusMsg res @ '' error: '' @ ErrorCodeToStr K theRet]\<rparr>, 1 :: int)
                else if contentLength res \<le> 0 then
                  (w1\<lparr>cout := cout w1 @ fst theIt @ '' OK'' @ NL\<rparr>, retCode)
                else
                  (w1\<lparr>cout := cout w1 @ ostream_write (contentBuf res) (contentLength res)\<rparr>,
                   retCode)))"

definition Main_loop ::
  "'c Collaborators \<Rightarrow> ServerLocation \<Rightarrow> string list \<Rightarrow> 'c world \<times> int \<Rightarrow> 'c world \<times> int" where
  "Main_loop K theLocation args st = foldl (Main_body K theLocation) st args"

text \<open>
  \<^verbatim>\<open>Main\<close>, given the collaborators, \<^verbatim>\<open>inArgsPtr[0]\<close>, the results of \<^verbatim>\<open>getopt\<close>,
  the arguments from \<^verbatim>\<open>optind\<close> on, and the world with a newly constructed
  \<^verbatim>\<open>MonClient\<close>; it returns the world and the exit code. \<open>w0\<close> is the world after
  the \<^verbatim>\<open>while\<close> loop over \<^verbatim>\<open>getopt\<close>. The test \<^verbatim>\<open>! theServerPtr\<close> is the case
  \<open>None\<close>.
\<close>

definition Main_usage :: "string \<Rightarrow> Options \<Rightarrow> 'c world \<Rightarrow> 'c world \<times> int" where
  "Main_usage argv0 st w =
     (CmdHelp None
        (if theHelpFlag st then w\<lparr>cout := cout w @ Usage argv0\<rparr>
         else w\<lparr>cerr := cerr w @ Usage argv0\<rparr>),
      if theHelpFlag st then theRetCode st else 1)"

definition Main ::
  "'c Collaborators \<Rightarrow> string \<Rightarrow> (char \<times> string \<times> string) list \<Rightarrow> string list \<Rightarrow> 'c world
     \<Rightarrow> 'c world \<times> int" where
  "Main K argv0 opts args w =
     (let st = getopt_loop opts;
          w0 = w\<lparr>cerr := cerr w @ getopt_stderr opts\<rparr>
      in case theServerPtr st of
           None \<Rightarrow> Main_usage argv0 st w0
         | Some srv \<Rightarrow>
             if theHelpFlag st \<or> thePort st < 0 then Main_usage argv0 st w0
             else
               let w1 = w0\<lparr>calls := calls w0 @
                          [MsgLogger_Init (if theVerboseLoggingFlag st then kLogLevelDEBUG
                                           else kLogLevelINFO)]\<rparr>;
                   theLocation = \<lparr>hostname = c_str srv, port = thePort st\<rparr>;
                   r = SetParameters K theLocation (theConfigFileNamePtr st) (theClient w1);
                   w2 = w1\<lparr>calls := calls w1 @
                            [MonClient_SetParameters theLocation (theConfigFileNamePtr st)],
                          theClient := snd r\<rparr>
               in if fst r < 0 then (w2, 1)
                  else
                    let n = sint (push_bit 20 (512 :: 32 word));
                        w3 = w2\<lparr>calls := calls w2 @ [MonClient_SetMaxContentLength n],
                               theClient := SetMaxContentLength K n (theClient w2)\<rparr>
                    in Main_loop K theLocation args (w3, theRetCode st))"

section \<open>Notions used to state the properties\<close>

text \<open>The lower-case form of one byte as the spec describes it: the ASCII capital
  letters move to their small letters, every other byte stays.\<close>

definition lower_char :: "char \<Rightarrow> char" where
  "lower_char c =
     (if CHR ''A'' \<le> c \<and> c \<le> CHR ''Z'' then char_of (of_char c + (32 :: int)) else c)"

text \<open>Two strings that differ at most in the case of their ASCII letters.\<close>

definition case_variant_char :: "char \<Rightarrow> char \<Rightarrow> bool" where
  "case_variant_char a b =
     (a = b \<or> (CHR ''A'' \<le> a \<and> a \<le> CHR ''Z'' \<and> of_char b = of_char a + (32 :: nat))
            \<or> (CHR ''A'' \<le> b \<and> b \<le> CHR ''Z'' \<and> of_char a = of_char b + (32 :: nat)))"

definition case_variant :: "string \<Rightarrow> string \<Rightarrow> bool" where
  "case_variant s t = list_all2 case_variant_char s t"

text \<open>The greatest length of a key of the registry, and one line of the command listing
  for a given width: the key, with spaces before it up to the width, the separator and
  the description.\<close>

definition max_key_width :: nat where
  "max_key_width = foldr (\<lambda>e n. max (length (fst e)) n) sMetaAdminOpsMap 0"

definition listing_line ::
  "nat \<Rightarrow> string \<times> (string \<times> (KfsOp_t \<times> string)) \<Rightarrow> string" where
  "listing_line width e =
     replicate (width - length (fst e)) (CHR '' '') @ fst e @ '' -- '' @
     snd (snd (snd e)) @ NL"

text \<open>The operation record that \<^verbatim>\<open>Main\<close> builds from a registry entry, and the calls
  and the messages on \<^verbatim>\<open>std::cerr\<close> that one command argument stands for.\<close>

definition op_of :: "string \<times> (string \<times> (KfsOp_t \<times> string)) \<Rightarrow> MetaMonOp" where
  "op_of theIt = \<lparr>op = fst (snd (snd theIt)), name = fst (snd theIt)\<rparr>"

definition calls_of :: "ServerLocation \<Rightarrow> string \<Rightarrow> call list" where
  "calls_of theLocation arg =
     (case map_find sMetaAdminOpsMap (ToLower arg) of
        None \<Rightarrow> []
      | Some theIt \<Rightarrow> [MonClient_Execute theLocation (op_of theIt)])"

definition complaints_of :: "string \<Rightarrow> string" where
  "complaints_of arg =
     (case map_find sMetaAdminOpsMap (ToLower arg) of
        None \<Rightarrow> ''no such command: '' @ c_str arg @ NL
      | Some theIt \<Rightarrow> [])"

definition is_SetMaxContentLength :: "call \<Rightarrow> bool" where
  "is_SetMaxContentLength c =
     (case c of MonClient_SetMaxContentLength n \<Rightarrow> True | _ \<Rightarrow> False)"

definition is_Execute :: "call \<Rightarrow> bool" where
  "is_Execute c = (case c of MonClient_Execute l x \<Rightarrow> True | _ \<Rightarrow> False)"

text \<open>An argument of \<^verbatim>\<open>-p\<close> in which \<^verbatim>\<open>atoi\<close> finds no digit: after the white space
  and one sign, the string ends or goes on with a byte that is not a decimal digit.\<close>

definition no_digits :: "string \<Rightarrow> bool" where
  "no_digits s =
     (let t = dropWhile isspace s;
          u = (case t of [] \<Rightarrow> [] | c # r \<Rightarrow> if c = CHR ''-'' \<or> c = CHR ''+'' then r else t)
      in case u of [] \<Rightarrow> True | d # r \<Rightarrow> \<not> isdigit d)"

section \<open>Collaborators for concrete runs\<close>

text \<open>
  A meta server stand-in for running the model on concrete command lines. Its
  \<^verbatim>\<open>MonClient\<close> counts the requests it has sent; setting it up fails for an empty host
  name; \<^verbatim>\<open>OPEN_FILES\<close> fails with status \<open>-5\<close> and the message \<open>boom\<close>,
  \<^verbatim>\<open>GET_REQUEST_COUNTERS\<close> answers with four bytes of content, and every other
  operation succeeds with no content.
\<close>

definition demo_Execute ::
  "ServerLocation \<Rightarrow> MetaMonOp \<Rightarrow> nat \<Rightarrow> int \<times> ExecutionOutcome \<times> nat" where
  "demo_Execute theLocation theOp c =
     (if op theOp = CMD_META_OPEN_FILES then
        (- 5, \<lparr>statusMsg = ''boom'', contentLength = 0, contentBuf = (\<lambda>i. CHR 0x00)\<rparr>, Suc c)
      else if op theOp = CMD_META_GET_REQUEST_COUNTERS then
        (0, \<lparr>statusMsg = [], contentLength = 4,
             contentBuf = (\<lambda>i. if i < 4 then (''a=1'' @ NL) ! i else CHR 0x00)\<rparr>, Suc c)
      else
        (0, \<lparr>statusMsg = [], contentLength = 0, contentBuf = (\<lambda>i. CHR 0x00)\<rparr>, Suc c))"

definition demo :: "nat Collaborators" where
  "demo =
     \<lparr>SetParameters = (\<lambda>theLocation cfg c. (if hostname theLocation = [] then - 22 else 0, c)),
      SetMaxContentLength = (\<lambda>n c. c),
      Execute = demo_Execute,
      ErrorCodeToStr = (\<lambda>n. if n = - 5 then ''Input/output error'' else ''error'')\<rparr>"

text \<open>The line the GNU \<^verbatim>\<open>getopt\<close> writes for the unknown option \<^verbatim>\<open>-x\<close>.\<close>

definition invalid_option_x :: string where
  "invalid_option_x =
     ''qfsadmin: invalid option -- '' @ [CHR 0x27, CHR ''x'', CHR 0x27] @ NL"

definition world0 :: "nat world" where
  "world0 = \<lparr>cout = [], cerr = [], log_error = [], calls = [], theClient = 0\<rparr>"

section \<open>Bytes, strings and the ordered map\<close>

lemma and_255: "(k::int) AND 255 = k mod 256"
proof -
  have "k AND mask 8 = take_bit 8 k" by (simp only: take_bit_eq_mask)
  then show ?thesis by (simp add: take_bit_eq_mod mask_eq_exp_minus_1)
qed

lemma of_char_int_range: "0 \<le> (of_char c :: int) \<and> (of_char c :: int) < 256"
proof -
  have "(of_char c :: int) = int (of_char c)" by (simp add: of_nat_of_char)
  moreover have "(of_char c :: nat) < 256" by simp
  ultimately show ?thesis by linarith
qed

lemma char_to_int_and: "char_to_int c AND 0xFF = of_char c"
  using of_char_int_range [of c] by (auto simp add: and_255 char_to_int_def Let_def)

lemma ToLower_char: "char_of (tolower (char_to_int c AND 0xFF)) = lower_char c"
proof -
  have i: "(of_char c :: int) = int (of_char c)" by (simp add: of_nat_of_char)
  show ?thesis
    by (simp add: char_to_int_and tolower_def lower_char_def i less_eq_char_def)
qed

lemma ToLower_eq: "ToLower s = map lower_char (c_str s)"
  by (induction s) (simp_all add: c_str_def ToLower_char del: ToLower.simps(2) add: ToLower.simps(2) [unfolded ToLower_char])

lemma sMetaAdminOpsMap_eq: "sMetaAdminOpsMap = 
 [(''check_leases'', ''CHECK_LEASES'', CMD_META_CHECK_LEASES, ''debug: run chunk leases check''),
  (''dump_chunkreplicationcandidates'', ''DUMP_CHUNKREPLICATIONCANDIDATES'',
   CMD_META_DUMP_CHUNKREPLICATIONCANDIDATES,
   ''debug: list content of the chunks re-replication and recovery queues''),
  (''dump_chunktoservermap'', ''DUMP_CHUNKTOSERVERMAP'', CMD_META_DUMP_CHUNKTOSERVERMAP,
   ''create chunk server to chunk id map file used by the off line re-balance utility and layout emulator''),
  (''get_chunk_server_dirs_counters'', ''GET_CHUNK_SERVER_DIRS_COUNTERS'',
   CMD_META_GET_CHUNK_SERVER_DIRS_COUNTERS, ''stats: output chunk directories counters''),
  (''get_chunk_servers_counters'', ''GET_CHUNK_SERVERS_COUNTERS'', CMD_META_GET_CHUNK_SERVERS_COUNTERS,
   ''stats: output chunk server counters''),
  (''get_request_counters'', ''GET_REQUEST_COUNTERS'', CMD_META_GET_REQUEST_COUNTERS,
   ''stats: get meta server request counters''),
  (''open_files'', ''OPEN_FILES'', CMD_META_OPEN_FILES, ''debug: list all chunk leases''),
  (''recompute_dirsize'', ''RECOMPUTE_DIRSIZE'', CMD_META_RECOMPUTE_DIRSIZE,
   ''debug: recompute directories sizes'')]"
  by (simp add: sMetaAdminOpsMap_def MakeMetaAdminOpsMap_def KfsForEachMetaOpId_def InsertAdminOpEntry_def
     tolower_def char_to_int_def char_of_def)

lemma sMetaAdminOpMaxLen_eq: "sMetaAdminOpMaxLen = 31"
  by (simp add: sMetaAdminOpMaxLen_def MakeMetaAdminOpsMap_def KfsForEachMetaOpId_def InsertAdminOpEntry_def
     tolower_def char_to_int_def char_of_def)

lemma keys_sorted: "sorted_wrt (<) (map fst sMetaAdminOpsMap)"
  by (simp add: sMetaAdminOpsMap_eq)

lemma registry_size_distinct: "length sMetaAdminOpsMap = 8 \<and> distinct (map fst sMetaAdminOpsMap) \<and> distinct (map (fst \<circ> snd \<circ> snd) sMetaAdminOpsMap)"
  by (simp add: sMetaAdminOpsMap_eq)

lemma keys_ToLower: "map fst sMetaAdminOpsMap = map (ToLower \<circ> fst \<circ> snd) sMetaAdminOpsMap"
  by (simp add: sMetaAdminOpsMap_eq tolower_def char_to_int_def char_of_def)

lemma registry_entries: "set (map snd sMetaAdminOpsMap) = set KfsForEachMetaOpId"
  by (simp add: sMetaAdminOpsMap_eq KfsForEachMetaOpId_def insert_commute)

lemma foldl_cout:
  "foldl (\<lambda>w' theIt. w'\<lparr>cout := cout w' @ f theIt\<rparr>) w m = w\<lparr>cout := cout w @ concat (map f m)\<rparr>"
  by (induction m arbitrary: w) simp_all

lemma max_key_width_eq: "max_key_width = 31"
  by (simp add: max_key_width_def sMetaAdminOpsMap_eq)

lemma CmdHelp_None_listing:
  "CmdHelp None w =
     w\<lparr>cout := cout w @ concat (map (listing_line max_key_width) sMetaAdminOpsMap)\<rparr>"
proof -
  have e: "map (\<lambda>theIt. setw sMetaAdminOpMaxLen (fst theIt) @ '' -- '' @
                        c_str (snd (snd (snd theIt))) @ NL) sMetaAdminOpsMap =
           map (listing_line max_key_width) sMetaAdminOpsMap"
    unfolding sMetaAdminOpMaxLen_eq max_key_width_eq
    by (simp add: sMetaAdminOpsMap_eq c_str_def listing_line_def setw_def)
  show ?thesis by (simp only: CmdHelp_def option.case foldl_cout e)
qed

lemma map_find_Some_key: "map_find m k = Some e \<Longrightarrow> fst e = k \<and> e \<in> set m"
  by (induction m k rule: map_find.induct) (auto split: if_splits)

lemma map_find_sorted:
  "sorted_wrt (<) (map fst m) \<Longrightarrow> (k, v) \<in> set m \<Longrightarrow> map_find m k = Some (k, v)"
  by (induction m) (auto split: if_splits)

lemma map_find_None: "sorted_wrt (<) (map fst m) \<Longrightarrow> map_find m k = None \<longleftrightarrow> k \<notin> fst ` set m"
   by (induction m) (auto split: if_splits)

lemma lower_char_upper:
  assumes "CHR ''A'' \<le> a" and "a \<le> CHR ''Z''" and "of_char b = of_char a + (32 :: nat)"
  shows "lower_char a = b" and "lower_char b = b" and "a \<noteq> CHR 0x00" and "b \<noteq> CHR 0x00"
proof -
  have "(of_char a :: int) + 32 = int (of_char a + 32)" by (simp add: of_nat_of_char)
  also have "\<dots> = int (of_char b)" using assms(3) by simp
  also have "\<dots> = of_char b" by (simp add: of_nat_of_char)
  finally have "char_of (of_char a + (32 :: int)) = b" by simp
  then show "lower_char a = b" using assms(1,2) by (simp add: lower_char_def)
  show "lower_char b = b" using assms by (simp add: lower_char_def less_eq_char_def)
  show "a \<noteq> CHR 0x00" using assms(1) by (auto simp add: less_eq_char_def)
  show "b \<noteq> CHR 0x00" using assms(3) by auto
qed

lemma case_variant_char_lower: "case_variant_char a b \<Longrightarrow> lower_char a = lower_char b"
  unfolding case_variant_char_def using lower_char_upper(1,2) by metis

lemma case_variant_char_nul:
  "case_variant_char a b \<Longrightarrow> b \<noteq> CHR 0x00 \<Longrightarrow> a \<noteq> CHR 0x00"
  unfolding case_variant_char_def using lower_char_upper(3,4) by metis

lemma c_str_id: "CHR 0x00 \<notin> set s \<Longrightarrow> c_str s = s"
  by (auto simp add: c_str_def takeWhile_eq_all_conv)

lemma case_variant_ToLower:
  "case_variant s t \<Longrightarrow> CHR 0x00 \<notin> set t \<Longrightarrow> ToLower s = ToLower t"
  unfolding case_variant_def
proof (induction s t rule: list_all2_induct)
  case Nil
  then show ?case by simp
next
  case (Cons a s b t)
  from Cons.prems have b: "b \<noteq> CHR 0x00" and t: "CHR 0x00 \<notin> set t" by auto
  from case_variant_char_nul [OF Cons.hyps(1) b] have a: "a \<noteq> CHR 0x00" .
  from Cons.IH [OF t] a b case_variant_char_lower [OF Cons.hyps(1)]
  show ?case by (simp add: ToLower_char)
qed

lemma lower_char_changes: "(lower_char c \<noteq> c) = (CHR ''A'' \<le> c \<and> c \<le> CHR ''Z'')"
proof (cases "CHR ''A'' \<le> c \<and> c \<le> CHR ''Z''")
  case True
  then have n: "65 \<le> (of_char c :: nat)" "(of_char c :: nat) \<le> 90"
    by (simp_all add: less_eq_char_def)
  have i: "(of_char c :: int) = int (of_char c)" by (simp add: of_nat_of_char)
  from n have r: "65 \<le> (of_char c :: int)" "(of_char c :: int) \<le> 90"
    unfolding i by linarith+
  have "(of_char (char_of (of_char c + (32 :: int))) :: int) = (of_char c + 32) mod 256"
    by (rule of_char_of)
  also have "\<dots> = of_char c + 32" using r by simp
  finally have e: "(of_char (char_of (of_char c + (32 :: int))) :: int) = of_char c + 32" .
  have "char_of (of_char c + (32 :: int)) \<noteq> c"
  proof
    assume h: "char_of (of_char c + (32 :: int)) = c"
    from e have "(of_char c :: int) = of_char c + 32" by (simp only: h)
    then show False by simp
  qed
  with True show ?thesis by (simp add: lower_char_def)
next
  case False
  then show ?thesis by (auto simp add: lower_char_def)
qed

lemma keys_normal:
  "list_all (\<lambda>e. CHR 0x00 \<notin> set (fst e) \<and> map lower_char (fst e) = fst e) sMetaAdminOpsMap"
  by (simp add: sMetaAdminOpsMap_eq lower_char_def)

text \<open>
  Claim C7. Lookup is case-insensitive by normalization: for every entry of the
  registry, a command argument that differs from the entry's key at most in the case of
  ASCII letters finds exactly that entry, and so do the key itself and the entry's
  upper-case display name. \<^verbatim>\<open>ToLower\<close> maps the bytes of the C string one by one,
  changing the ASCII capital letters and nothing else; the bytes from 128 on pass
  through unchanged.
\<close>

theorem lookup_case_insensitive:
  assumes "(k, v) \<in> set sMetaAdminOpsMap" and "case_variant s k"
  shows "map_find sMetaAdminOpsMap (ToLower s) = Some (k, v) \<and>
         map_find sMetaAdminOpsMap (ToLower k) = Some (k, v) \<and>
         map_find sMetaAdminOpsMap (ToLower (fst v)) = Some (k, v) \<and>
         ToLower t = map lower_char (c_str t) \<and>
         (lower_char c \<noteq> c) = (CHR ''A'' \<le> c \<and> c \<le> CHR ''Z'') \<and>
         (if 128 \<le> (of_char c :: nat) then lower_char c = c else True)"
proof -
  from keys_normal assms(1) have nul: "CHR 0x00 \<notin> set k" and fx: "map lower_char k = k"
    by (auto simp add: list_all_iff)
  have kk: "ToLower k = k" by (simp add: ToLower_eq c_str_id [OF nul] fx)
  have f: "map_find sMetaAdminOpsMap k = Some (k, v)"
    by (rule map_find_sorted [OF keys_sorted assms(1)])
  have "ToLower s = k" using case_variant_ToLower [OF assms(2) nul] kk by simp
  moreover have "ToLower (fst v) = k"
    using keys_ToLower assms(1) by (auto simp add: map_eq_conv)
  moreover have "(lower_char c \<noteq> c) = (CHR ''A'' \<le> c \<and> c \<le> CHR ''Z'')"
    by (rule lower_char_changes)
  moreover have "128 \<le> (of_char c :: nat) \<Longrightarrow> lower_char c = c"
    by (simp add: lower_char_def less_eq_char_def)
  ultimately show ?thesis using f kk by (simp add: ToLower_eq)
qed

theorem lookup_case_insensitive_witness:
  "(''check_leases'', ''CHECK_LEASES'', CMD_META_CHECK_LEASES, ''debug: run chunk leases check'')
     \<in> set sMetaAdminOpsMap \<and>
   case_variant ''Check_LEASES'' ''check_leases'' \<and>
   map_find sMetaAdminOpsMap (ToLower ''Check_LEASES'') =
     Some (''check_leases'', ''CHECK_LEASES'', CMD_META_CHECK_LEASES,
           ''debug: run chunk leases check'') \<and>
   map_find sMetaAdminOpsMap (ToLower ''CHECK_LEASES'') =
     Some (''check_leases'', ''CHECK_LEASES'', CMD_META_CHECK_LEASES,
           ''debug: run chunk leases check'') \<and>
   ToLower [CHR 0xC4, CHR ''A''] = [CHR 0xC4, CHR ''a'']"
proof -
  have h1: "(''check_leases'', ''CHECK_LEASES'', CMD_META_CHECK_LEASES,
             ''debug: run chunk leases check'') \<in> set sMetaAdminOpsMap"
    by (simp add: sMetaAdminOpsMap_eq)
  have h2: "case_variant ''Check_LEASES'' ''check_leases''"
    by (simp add: case_variant_def case_variant_char_def)
  from lookup_case_insensitive [OF h1 h2, of "[CHR 0xC4, CHR ''A'']"] h1 h2
  show ?thesis by (simp add: c_str_def lower_char_def char_of_def tolower_def char_to_int_def)
qed

text \<open>
  Claim C8. The registry has exactly 8 entries, its keys are pairwise distinct and are
  the lower-case forms of the display names, the opcodes are pairwise distinct, and the
  entries are those of the macro. The listing that \<^verbatim>\<open>CmdHelp(0)\<close> writes follows the
  ascending lexical order of the keys; each line is the key, right-aligned to the
  greatest key length (31), followed by \<open>" -- "\<close>, the description and a newline.
\<close>

theorem registry_listing:
  "length sMetaAdminOpsMap = 8 \<and>
   distinct (map fst sMetaAdminOpsMap) \<and>
   map fst sMetaAdminOpsMap = map (ToLower \<circ> fst \<circ> snd) sMetaAdminOpsMap \<and>
   distinct (map (fst \<circ> snd \<circ> snd) sMetaAdminOpsMap) \<and>
   set (map snd sMetaAdminOpsMap) = set KfsForEachMetaOpId \<and>
   sorted_wrt (<) (map fst sMetaAdminOpsMap) \<and>
   sMetaAdminOpMaxLen = max_key_width \<and> max_key_width = 31 \<and>
   CmdHelp None w =
     w\<lparr>cout := cout w @ concat (map (listing_line max_key_width) sMetaAdminOpsMap)\<rparr>"
proof -
  from registry_size_distinct have "length sMetaAdminOpsMap = 8"
    and "distinct (map fst sMetaAdminOpsMap)"
    and "distinct (map (fst \<circ> snd \<circ> snd) sMetaAdminOpsMap)" by simp_all
  moreover have "sMetaAdminOpMaxLen = max_key_width"
    by (simp add: max_key_width_eq sMetaAdminOpMaxLen_eq)
  moreover note keys_ToLower registry_entries keys_sorted max_key_width_eq
    CmdHelp_None_listing [of w]
  ultimately show ?thesis by blast
qed

section \<open>The loop over the command arguments\<close>

lemma Main_body_unresolved:
  "map_find sMetaAdminOpsMap (ToLower a) = None \<Longrightarrow>
   Main_body K loc (w, rc) a = (w\<lparr>cerr := cerr w @ ''no such command: '' @ c_str a @ NL\<rparr>, rc)"
  by (simp add: Main_body_def)

lemma Main_body_resolved:
  assumes "map_find sMetaAdminOpsMap (ToLower a) = Some theIt"
    and "Execute K loc (op_of theIt) (theClient w) = (theRet, res, c')"
  shows "Main_body K loc (w, rc) a =
     (let w1 = w\<lparr>calls := calls w @ [MonClient_Execute loc (op_of theIt)], theClient := c'\<rparr>
      in if theRet < 0 then
           (w1\<lparr>log_error := log_error w @ [statusMsg res @ '' error: '' @ ErrorCodeToStr K theRet]\<rparr>, 1)
         else if contentLength res \<le> 0 then (w1\<lparr>cout := cout w @ fst theIt @ '' OK'' @ NL\<rparr>, rc)
         else (w1\<lparr>cout := cout w @ ostream_write (contentBuf res) (contentLength res)\<rparr>, rc))"
  using assms by (simp add: Main_body_def Let_def op_of_def)

lemma Main_body_calls:
  "calls (fst (Main_body K loc st a)) = calls (fst st) @ calls_of loc a"
  by (cases st) (simp add: Main_body_def calls_of_def op_of_def Let_def split: option.splits)

lemma Main_body_cerr:
  "cerr (fst (Main_body K loc st a)) = cerr (fst st) @ complaints_of a"
  by (cases st) (simp add: Main_body_def complaints_of_def Let_def split: option.splits)

lemma Main_loop_Nil: "Main_loop K loc [] st = st"
  by (simp add: Main_loop_def)

lemma Main_loop_Cons: "Main_loop K loc (a # args) st = Main_loop K loc args (Main_body K loc st a)"
  by (simp add: Main_loop_def)

lemma Main_loop_append:
  "Main_loop K loc (xs @ ys) st = Main_loop K loc ys (Main_loop K loc xs st)"
  by (simp add: Main_loop_def)

lemma Main_loop_calls:
  "calls (fst (Main_loop K loc args st)) = calls (fst st) @ concat (map (calls_of loc) args)"
  by (induction args arbitrary: st) (simp_all add: Main_loop_Nil Main_loop_Cons Main_body_calls)

lemma Main_loop_cerr:
  "cerr (fst (Main_loop K loc args st)) = cerr (fst st) @ concat (map complaints_of args)"
  by (induction args arbitrary: st) (simp_all add: Main_loop_Nil Main_loop_Cons Main_body_cerr)

lemma Main_body_failed: "snd st = 1 \<Longrightarrow> snd (Main_body K loc st a) = 1"
  by (cases st) (simp add: Main_body_def Let_def split: option.splits)

lemma Main_loop_failed: "snd st = 1 \<Longrightarrow> snd (Main_loop K loc args st) = 1"
  by (induction args arbitrary: st) (simp_all add: Main_loop_Nil Main_loop_Cons Main_body_failed)

text \<open>
  Claim C4. Command execution never stops early. Whatever the remote calls return,
  the calls of the loop are, argument by argument and in the order of the arguments,
  one \<^verbatim>\<open>Execute\<close> for an argument that resolves and none for one that does not; each
  argument that does not resolve adds one "no such command" line to
  \<^verbatim>\<open>std::cerr\<close>; and after any argument the loop goes on with the arguments that
  follow.
\<close>

theorem no_short_circuit:
  "calls (fst (Main_loop K loc args st)) = calls (fst st) @ concat (map (calls_of loc) args) \<and>
   cerr (fst (Main_loop K loc args st)) = cerr (fst st) @ concat (map complaints_of args) \<and>
   Main_loop K loc (pre @ a # post) st =
     Main_loop K loc post (Main_body K loc (Main_loop K loc pre st) a)"
  by (simp add: Main_loop_calls Main_loop_cerr Main_loop_append Main_loop_Cons)

text \<open>
  Claim C5. When the loop reaches an argument that resolves and its remote call returns
  a negative status, the message handed to the error log is the operation's
  \<^verbatim>\<open>statusMsg\<close>, then \<open>" error: "\<close>, then \<^verbatim>\<open>ErrorCodeToStr\<close> of the status;
  nothing is written to \<^verbatim>\<open>std::cout\<close> or \<^verbatim>\<open>std::cerr\<close>; \<^verbatim>\<open>theRetCode\<close> becomes
  1 and stays 1 to the end of the loop, whose value is the exit code; and the loop
  goes on with the arguments that follow.
\<close>

theorem remote_failure:
  assumes "map_find sMetaAdminOpsMap (ToLower arg) = Some theIt"
    and "Execute K loc (op_of theIt) (theClient w) = (theRet, res, c')"
    and "theRet < 0"
    and "Main_loop K loc pre st0 = (w, rc)"
  shows "Main_loop K loc (pre @ [arg]) st0 =
           (w\<lparr>calls := calls w @ [MonClient_Execute loc (op_of theIt)], theClient := c',
              log_error := log_error w @
                [statusMsg res @ '' error: '' @ ErrorCodeToStr K theRet]\<rparr>, 1) \<and>
         Main_loop K loc (pre @ arg # post) st0 =
           Main_loop K loc post (Main_loop K loc (pre @ [arg]) st0) \<and>
         snd (Main_loop K loc (pre @ arg # post) st0) = 1"
proof -
  have b: "Main_body K loc (w, rc) arg =
           (w\<lparr>calls := calls w @ [MonClient_Execute loc (op_of theIt)], theClient := c',
              log_error := log_error w @
                [statusMsg res @ '' error: '' @ ErrorCodeToStr K theRet]\<rparr>, 1)"
    using Main_body_resolved [OF assms(1,2)] assms(3) by (simp add: Let_def)
  have one: "Main_loop K loc (pre @ [arg]) st0 = Main_body K loc (w, rc) arg"
    by (simp add: Main_loop_append assms(4) Main_loop_Cons Main_loop_Nil)
  have step: "Main_loop K loc (pre @ arg # post) st0 =
              Main_loop K loc post (Main_loop K loc (pre @ [arg]) st0)"
    by (simp add: Main_loop_append Main_loop_Cons Main_loop_Nil)
  have "snd (Main_loop K loc post (Main_loop K loc (pre @ [arg]) st0)) = 1"
    by (rule Main_loop_failed) (simp add: one b)
  with one b step show ?thesis by simp
qed

text \<open>
  Claim C6. For an argument that resolves, when the remote call returns a status that
  is not negative and a positive \<^verbatim>\<open>contentLength\<close>, the step appends to
  \<^verbatim>\<open>std::cout\<close> the first \<^verbatim>\<open>contentLength\<close> bytes of \<^verbatim>\<open>contentBuf\<close>, as they are,
  and nothing else; \<^verbatim>\<open>std::cerr\<close>, the error log and \<^verbatim>\<open>theRetCode\<close> stay as they
  were.
\<close>

theorem content_written:
  assumes "map_find sMetaAdminOpsMap (ToLower arg) = Some theIt"
    and "Execute K loc (op_of theIt) (theClient w) = (theRet, res, c')"
    and "0 \<le> theRet" and "0 < contentLength res"
  shows "Main_body K loc (w, rc) arg =
           (w\<lparr>calls := calls w @ [MonClient_Execute loc (op_of theIt)], theClient := c',
              cout := cout w @ map (contentBuf res) [0..<nat (contentLength res)]\<rparr>, rc) \<and>
         int (length (map (contentBuf res) [0..<nat (contentLength res)])) = contentLength res"
  using Main_body_resolved [OF assms(1,2)] assms(3,4) by (simp add: Let_def ostream_write_def)

text \<open>
  Claim C2, as amended. For an argument that resolves, when the remote call returns a
  status that is not negative and \<^verbatim>\<open>contentLength <= 0\<close>, the step appends to
  \<^verbatim>\<open>std::cout\<close> exactly the registry key of the command (\<^verbatim>\<open>theIt->first\<close>, the
  lower-case form of the argument, not the upper-case display name), then \<open>" OK"\<close>
  and a newline, and nothing else.
\<close>

theorem ok_line:
  assumes "map_find sMetaAdminOpsMap (ToLower arg) = Some theIt"
    and "Execute K loc (op_of theIt) (theClient w) = (theRet, res, c')"
    and "0 \<le> theRet" and "contentLength res \<le> 0"
  shows "Main_body K loc (w, rc) arg =
           (w\<lparr>calls := calls w @ [MonClient_Execute loc (op_of theIt)], theClient := c',
              cout := cout w @ fst theIt @ '' OK'' @ NL\<rparr>, rc) \<and>
         fst theIt = ToLower arg"
  using Main_body_resolved [OF assms(1,2)] assms(3,4) map_find_Some_key [OF assms(1)]
  by (simp add: Let_def)

section \<open>The run as a whole\<close>

lemma Main_usage_eq:
  "Main_usage argv0 st w =
     (w\<lparr>cout := cout w @ (if theHelpFlag st then Usage argv0 else []) @
                  concat (map (listing_line max_key_width) sMetaAdminOpsMap),
        cerr := cerr w @ (if theHelpFlag st then [] else Usage argv0)\<rparr>,
      if theHelpFlag st then theRetCode st else 1)"
  by (simp add: Main_usage_def CmdHelp_None_listing)

lemma shift_512: "sint (push_bit 20 (512 :: 32 word)) = 536870912"
  by simp

lemma Main_rejected:
  "theHelpFlag (getopt_loop opts) \<or> theServerPtr (getopt_loop opts) = None \<or>
   thePort (getopt_loop opts) < 0 \<Longrightarrow>
   Main K argv0 opts args w =
     Main_usage argv0 (getopt_loop opts) (w\<lparr>cerr := cerr w @ getopt_stderr opts\<rparr>)"
  by (auto simp add: Main_def Let_def split: option.splits)

lemma Main_proceeds:
  assumes "theServerPtr (getopt_loop opts) = Some srv"
    and "\<not> theHelpFlag (getopt_loop opts)" and "0 \<le> thePort (getopt_loop opts)"
  shows "Main K argv0 opts args w =
     (let st = getopt_loop opts;
          theLocation = \<lparr>hostname = c_str srv, port = thePort st\<rparr>;
          r = SetParameters K theLocation (theConfigFileNamePtr st) (theClient w);
          w2 = w\<lparr>cerr := cerr w @ getopt_stderr opts,
                 calls := calls w @
                   [MsgLogger_Init (if theVerboseLoggingFlag st then kLogLevelDEBUG
                                    else kLogLevelINFO),
                    MonClient_SetParameters theLocation (theConfigFileNamePtr st)],
                 theClient := snd r\<rparr>
      in if fst r < 0 then (w2, 1)
         else Main_loop K theLocation args
                (w2\<lparr>calls := calls w2 @ [MonClient_SetMaxContentLength 536870912],
                    theClient := SetMaxContentLength K 536870912 (snd r)\<rparr>,
                 theRetCode st))"
  using assms by (simp add: Main_def Let_def)

text \<open>The calls of a whole run.\<close>

lemma Main_calls:
  "calls (fst (Main K argv0 opts args w)) = calls w @
     (let st = getopt_loop opts
      in case theServerPtr st of
           None \<Rightarrow> []
         | Some srv \<Rightarrow>
             if theHelpFlag st \<or> thePort st < 0 then []
             else
               let theLocation = \<lparr>hostname = c_str srv, port = thePort st\<rparr>
               in [MsgLogger_Init (if theVerboseLoggingFlag st then kLogLevelDEBUG
                                   else kLogLevelINFO),
                   MonClient_SetParameters theLocation (theConfigFileNamePtr st)] @
                  (if fst (SetParameters K theLocation (theConfigFileNamePtr st) (theClient w)) < 0
                   then []
                   else MonClient_SetMaxContentLength 536870912 #
                        concat (map (calls_of theLocation) args)))"
proof (cases "theServerPtr (getopt_loop opts)")
  case None
  then show ?thesis by (simp add: Main_rejected Main_usage_eq Let_def)
next
  case (Some srv)
  show ?thesis
  proof (cases "theHelpFlag (getopt_loop opts) \<or> thePort (getopt_loop opts) < 0")
    case True
    then have "Main K argv0 opts args w =
        Main_usage argv0 (getopt_loop opts) (w\<lparr>cerr := cerr w @ getopt_stderr opts\<rparr>)"
      by (intro Main_rejected) auto
    with True Some show ?thesis by (auto simp add: Main_usage_eq Let_def)
  next
    case False
    then have h: "\<not> theHelpFlag (getopt_loop opts)" and p: "0 \<le> thePort (getopt_loop opts)"
      by auto
    from h p Some show ?thesis
      by (simp add: Main_proceeds [OF Some h p] Let_def Main_loop_calls)
  qed
qed

lemma calls_of_Execute: "filter is_SetMaxContentLength (concat (map (calls_of loc) args)) = []"
  by (induction args) (simp_all add: calls_of_def is_SetMaxContentLength_def split: option.splits)

lemma getopt_loop_snoc: "getopt_loop (opts @ [x]) = getopt_switch (getopt_loop opts) x"
  by (simp add: getopt_loop_def)

lemma getopt_theRetCode:
  "theRetCode (getopt_loop opts) = (if set (map fst opts) \<subseteq> set ''msphvf'' then 0 else 1)"
proof (induction opts rule: rev_induct)
  case Nil
  then show ?case by (simp add: getopt_loop_def Options_init_def)
next
  case (snoc x xs)
  then show ?case by (cases x rule: prod_cases3) (simp add: getopt_loop_snoc)
qed

lemma getopt_theHelpFlag:
  "theHelpFlag (getopt_loop opts) = (CHR ''h'' \<in> set (map fst opts))"
proof (induction opts rule: rev_induct)
  case Nil
  then show ?case by (simp add: getopt_loop_def Options_init_def)
next
  case (snoc x xs)
  then show ?case by (cases x rule: prod_cases3) (auto simp add: getopt_loop_snoc)
qed

lemma getopt_theServerPtr:
  "(theServerPtr (getopt_loop opts) = None) =
   (CHR ''m'' \<notin> set (map fst opts) \<and> CHR ''s'' \<notin> set (map fst opts))"
proof (induction opts rule: rev_induct)
  case Nil
  then show ?case by (simp add: getopt_loop_def Options_init_def)
next
  case (snoc x xs)
  then show ?case by (cases x rule: prod_cases3) (auto simp add: getopt_loop_snoc)
qed

lemma getopt_thePort_keep:
  "CHR ''p'' \<notin> set (map fst post) \<Longrightarrow>
   thePort (foldl getopt_switch st post) = thePort st"
proof (induction post arbitrary: st)
  case Nil
  then show ?case by simp
next
  case (Cons x xs)
  then show ?case by (cases x rule: prod_cases3) auto
qed

lemma getopt_thePort_last:
  "CHR ''p'' \<notin> set (map fst post) \<Longrightarrow>
   thePort (getopt_loop (pre @ (CHR ''p'', arg, d) # post)) = atoi arg"
  by (simp add: getopt_loop_def getopt_thePort_keep)

lemma digits_no_digit: "(case u of [] \<Rightarrow> True | d # r \<Rightarrow> \<not> isdigit d) \<Longrightarrow> digits u 0 = 0"
  by (cases u) simp_all

lemma atoi_no_digits: "no_digits s \<Longrightarrow> atoi s = 0"
  by (simp add: no_digits_def atoi_def strtol10_def Let_def digits_no_digit)

section \<open>Concrete runs\<close>

lemmas run_simps =
  Main_def Main_usage_def Main_loop_def Main_body_def getopt_loop_def getopt_stderr_def
  Options_init_def
  atoi_def strtol10_def isspace_def isdigit_def c_str_def Usage_def
  CmdHelp_None_listing max_key_width_eq sMetaAdminOpsMap_eq
  tolower_def char_to_int_def char_of_def ostream_write_def op_of_def
  demo_def demo_Execute_def world0_def Let_def

text \<open>
  Claim C1, on the code. An argument that does not resolve leaves \<^verbatim>\<open>theRetCode\<close> as
  it was: the loop writes the "no such command" line and goes on. So the run of
  \<^verbatim>\<open>-s localhost -p 20000 check_leases bogus\<close> against a server on which
  \<^verbatim>\<open>CHECK_LEASES\<close> succeeds ends with exit code 0, where the claim says 1.
\<close>

theorem unresolved_token_exit_code:
  "map_find sMetaAdminOpsMap (ToLower ''bogus'') = None \<and>
   Main_loop K loc [''bogus''] (w, rc) =
     (w\<lparr>cerr := cerr w @ ''no such command: bogus'' @ NL\<rparr>, rc) \<and>
   Main demo ''qfsadmin'' [(CHR ''s'', ''localhost'', []), (CHR ''p'', ''20000'', [])]
        [''check_leases'', ''bogus''] world0 =
     (world0\<lparr>cout := ''check_leases OK'' @ NL,
             cerr := ''no such command: bogus'' @ NL,
             calls := [MsgLogger_Init kLogLevelINFO,
                       MonClient_SetParameters \<lparr>hostname = ''localhost'', port = 20000\<rparr> None,
                       MonClient_SetMaxContentLength 536870912,
                       MonClient_Execute \<lparr>hostname = ''localhost'', port = 20000\<rparr>
                         \<lparr>op = CMD_META_CHECK_LEASES, name = ''CHECK_LEASES''\<rparr>],
             theClient := 1\<rparr>, 0)"
  by (simp add: run_simps)

text \<open>
  Claim C2 as stated fails: for \<^verbatim>\<open>check_leases\<close>, whose display name is
  \<^verbatim>\<open>CHECK_LEASES\<close>, a successful call with no content writes the line with the
  lower-case key.
\<close>

theorem ok_line_counterexample:
  "map_find sMetaAdminOpsMap (ToLower ''check_leases'') =
     Some (''check_leases'', ''CHECK_LEASES'', CMD_META_CHECK_LEASES,
           ''debug: run chunk leases check'') \<and>
   Execute demo \<lparr>hostname = ''localhost'', port = 20000\<rparr>
     \<lparr>op = CMD_META_CHECK_LEASES, name = ''CHECK_LEASES''\<rparr> 0 =
     (0, \<lparr>statusMsg = [], contentLength = 0, contentBuf = (\<lambda>i. CHR 0x00)\<rparr>, 1) \<and>
   cout (fst (Main_body demo \<lparr>hostname = ''localhost'', port = 20000\<rparr> (world0, 0)
                ''check_leases'')) = ''check_leases OK'' @ NL \<and>
   cout (fst (Main_body demo \<lparr>hostname = ''localhost'', port = 20000\<rparr> (world0, 0)
                ''check_leases'')) \<noteq> ''CHECK_LEASES OK'' @ NL"
  by (simp add: run_simps)


text \<open>
  Claim C2, as amended, on the argument \<^verbatim>\<open>Recompute_DirSize\<close>.
\<close>

theorem ok_line_witness:
  "map_find sMetaAdminOpsMap (ToLower ''Recompute_DirSize'') =
     Some (''recompute_dirsize'', ''RECOMPUTE_DIRSIZE'', CMD_META_RECOMPUTE_DIRSIZE,
           ''debug: recompute directories sizes'') \<and>
   Execute demo \<lparr>hostname = ''localhost'', port = 20000\<rparr>
     (op_of (''recompute_dirsize'', ''RECOMPUTE_DIRSIZE'', CMD_META_RECOMPUTE_DIRSIZE,
             ''debug: recompute directories sizes'')) (theClient world0) =
     (0, \<lparr>statusMsg = [], contentLength = 0, contentBuf = (\<lambda>i. CHR 0x00)\<rparr>, 1) \<and>
   Main_body demo \<lparr>hostname = ''localhost'', port = 20000\<rparr> (world0, 0)
     ''Recompute_DirSize'' =
     (world0\<lparr>calls := [MonClient_Execute \<lparr>hostname = ''localhost'', port = 20000\<rparr>
                          \<lparr>op = CMD_META_RECOMPUTE_DIRSIZE, name = ''RECOMPUTE_DIRSIZE''\<rparr>],
             theClient := 1, cout := ''recompute_dirsize OK'' @ NL\<rparr>, 0)"
proof -
  let ?e = "(''recompute_dirsize'', ''RECOMPUTE_DIRSIZE'', CMD_META_RECOMPUTE_DIRSIZE,
             ''debug: recompute directories sizes'')"
  let ?loc = "\<lparr>hostname = ''localhost'', port = 20000\<rparr>"
  let ?res = "\<lparr>statusMsg = [], contentLength = 0, contentBuf = (\<lambda>i. CHR 0x00)\<rparr>"
  have h1: "map_find sMetaAdminOpsMap (ToLower ''Recompute_DirSize'') = Some ?e"
    by (simp add: sMetaAdminOpsMap_eq tolower_def char_to_int_def char_of_def)
  have h2: "Execute demo ?loc (op_of ?e) (theClient world0) = (0, ?res, 1)"
    by (simp add: demo_def demo_Execute_def op_of_def world0_def)
  have h3: "(0 :: int) \<le> 0" by simp
  have h4: "contentLength ?res \<le> 0" by simp
  from ok_line [OF h1 h2 h3 h4, of 0] h1 h2 show ?thesis
    by (simp add: op_of_def world0_def del: ToLower.simps)
qed

text \<open>
  Claim C5 on the arguments \<^verbatim>\<open>open_files check_leases\<close>, where the first call
  returns \<open>-5\<close> with the message \<open>boom\<close>.
\<close>

theorem remote_failure_witness:
  "map_find sMetaAdminOpsMap (ToLower ''open_files'') =
     Some (''open_files'', ''OPEN_FILES'', CMD_META_OPEN_FILES, ''debug: list all chunk leases'') \<and>
   Execute demo \<lparr>hostname = ''localhost'', port = 20000\<rparr>
     (op_of (''open_files'', ''OPEN_FILES'', CMD_META_OPEN_FILES,
             ''debug: list all chunk leases'')) (theClient world0) =
     (- 5, \<lparr>statusMsg = ''boom'', contentLength = 0, contentBuf = (\<lambda>i. CHR 0x00)\<rparr>, 1) \<and>
   Main_loop demo \<lparr>hostname = ''localhost'', port = 20000\<rparr> [''open_files''] (world0, 0) =
     (world0\<lparr>calls := [MonClient_Execute \<lparr>hostname = ''localhost'', port = 20000\<rparr>
                          \<lparr>op = CMD_META_OPEN_FILES, name = ''OPEN_FILES''\<rparr>],
             theClient := 1,
             log_error := [''boom error: Input/output error'']\<rparr>, 1) \<and>
   snd (Main_loop demo \<lparr>hostname = ''localhost'', port = 20000\<rparr>
          [''open_files'', ''check_leases''] (world0, 0)) = 1"
proof -
  let ?e = "(''open_files'', ''OPEN_FILES'', CMD_META_OPEN_FILES, ''debug: list all chunk leases'')"
  let ?loc = "\<lparr>hostname = ''localhost'', port = 20000\<rparr>"
  let ?res = "\<lparr>statusMsg = ''boom'', contentLength = 0, contentBuf = (\<lambda>i. CHR 0x00)\<rparr>"
  have h1: "map_find sMetaAdminOpsMap (ToLower ''open_files'') = Some ?e"
    by (simp add: sMetaAdminOpsMap_eq tolower_def char_to_int_def char_of_def)
  have h2: "Execute demo ?loc (op_of ?e) (theClient world0) = (- 5, ?res, 1)"
    by (simp add: demo_def demo_Execute_def op_of_def world0_def)
  have h3: "(- 5 :: int) < 0" by simp
  have h4: "Main_loop demo ?loc [] (world0, 0) = (world0, 0)" by (simp add: Main_loop_def)
  note th = remote_failure [OF h1 h2 h3 h4, of "[''check_leases'']"]
  have c3: "Main_loop demo ?loc [''open_files''] (world0, 0) =
     (world0\<lparr>calls := [MonClient_Execute ?loc
                          \<lparr>op = CMD_META_OPEN_FILES, name = ''OPEN_FILES''\<rparr>],
             theClient := 1,
             log_error := [''boom error: Input/output error'']\<rparr>, 1)"
    using th [THEN conjunct1] by (simp add: op_of_def world0_def demo_def)
  have c4: "snd (Main_loop demo ?loc [''open_files'', ''check_leases''] (world0, 0)) = 1"
    using th [THEN conjunct2, THEN conjunct2] by simp
  from h1 h2 c3 c4 show ?thesis by blast
qed

text \<open>
  Claim C6 on the argument \<^verbatim>\<open>get_request_counters\<close>, answered with four bytes.
\<close>

theorem content_written_witness:
  "map_find sMetaAdminOpsMap (ToLower ''get_request_counters'') =
     Some (''get_request_counters'', ''GET_REQUEST_COUNTERS'', CMD_META_GET_REQUEST_COUNTERS,
           ''stats: get meta server request counters'') \<and>
   fst (Execute demo \<lparr>hostname = ''localhost'', port = 20000\<rparr>
     (op_of (''get_request_counters'', ''GET_REQUEST_COUNTERS'', CMD_META_GET_REQUEST_COUNTERS,
             ''stats: get meta server request counters'')) (theClient world0)) = 0 \<and>
   contentLength (fst (snd (Execute demo \<lparr>hostname = ''localhost'', port = 20000\<rparr>
     (op_of (''get_request_counters'', ''GET_REQUEST_COUNTERS'', CMD_META_GET_REQUEST_COUNTERS,
             ''stats: get meta server request counters'')) (theClient world0)))) = 4 \<and>
   Main_body demo \<lparr>hostname = ''localhost'', port = 20000\<rparr> (world0, 0)
     ''get_request_counters'' =
     (world0\<lparr>calls := [MonClient_Execute \<lparr>hostname = ''localhost'', port = 20000\<rparr>
                          \<lparr>op = CMD_META_GET_REQUEST_COUNTERS, name = ''GET_REQUEST_COUNTERS''\<rparr>],
             theClient := 1, cout := ''a=1'' @ NL\<rparr>, 0)"
proof -
  let ?e = "(''get_request_counters'', ''GET_REQUEST_COUNTERS'', CMD_META_GET_REQUEST_COUNTERS,
             ''stats: get meta server request counters'')"
  let ?loc = "\<lparr>hostname = ''localhost'', port = 20000\<rparr>"
  let ?res = "\<lparr>statusMsg = [], contentLength = 4,
               contentBuf = (\<lambda>i. if i < 4 then (''a=1'' @ NL) ! i else CHR 0x00)\<rparr>"
  have h1: "map_find sMetaAdminOpsMap (ToLower ''get_request_counters'') = Some ?e"
    by (simp add: sMetaAdminOpsMap_eq tolower_def char_to_int_def char_of_def)
  have h2: "Execute demo ?loc (op_of ?e) (theClient world0) = (0, ?res, 1)"
    by (simp add: demo_def demo_Execute_def op_of_def world0_def)
  have h3: "(0 :: int) \<le> 0" by simp
  have h4: "0 < contentLength ?res" by simp
  have u: "[0..<4] = [0, 1, 2, 3]" by (simp add: upt_rec)
  from content_written [OF h1 h2 h3 h4, of 0] h1 h2 show ?thesis
    by (simp add: op_of_def world0_def u del: ToLower.simps)
qed

section \<open>Rejected command lines\<close>

text \<open>
  Claim C3, as amended. If help is requested, or the host is missing, or the port is
  negative, the run makes no call on any collaborator and leaves the client untouched.
  After the diagnostics of \<^verbatim>\<open>getopt\<close>, which are on the error channel already, it
  writes the usage banner, to \<^verbatim>\<open>std::cout\<close> when help was requested and to the error
  channel otherwise, and then the full command listing, always to \<^verbatim>\<open>std::cout\<close>.
  Without the help option the exit code is 1. With the help option the exit code is
  \<^verbatim>\<open>theRetCode\<close>: 1 if some call of \<^verbatim>\<open>getopt\<close> returned anything but one of the six
  option characters (it returns \<open>?\<close> for an unrecognized option and for an option
  whose argument is missing), and 0 otherwise, also when the host or the port is
  missing.
\<close>

theorem usage_exit:
  assumes "theHelpFlag (getopt_loop opts) \<or> theServerPtr (getopt_loop opts) = None \<or>
           thePort (getopt_loop opts) < 0"
  shows "Main K argv0 opts args w =
           (w\<lparr>cout := cout w @ (if theHelpFlag (getopt_loop opts) then Usage argv0 else []) @
                        concat (map (listing_line max_key_width) sMetaAdminOpsMap),
              cerr := cerr w @ getopt_stderr opts @
                        (if theHelpFlag (getopt_loop opts) then [] else Usage argv0)\<rparr>,
            if theHelpFlag (getopt_loop opts) then theRetCode (getopt_loop opts) else 1) \<and>
         calls (fst (Main K argv0 opts args w)) = calls w \<and>
         theClient (fst (Main K argv0 opts args w)) = theClient w \<and>
         theHelpFlag (getopt_loop opts) = (CHR ''h'' \<in> set (map fst opts)) \<and>
         theRetCode (getopt_loop opts) =
           (if set (map fst opts) \<subseteq> set ''msphvf'' then 0 else 1)"
proof -
  have e: "Main K argv0 opts args w =
      Main_usage argv0 (getopt_loop opts) (w\<lparr>cerr := cerr w @ getopt_stderr opts\<rparr>)"
    by (rule Main_rejected [OF assms])
  have c1: "Main K argv0 opts args w =
           (w\<lparr>cout := cout w @ (if theHelpFlag (getopt_loop opts) then Usage argv0 else []) @
                        concat (map (listing_line max_key_width) sMetaAdminOpsMap),
              cerr := cerr w @ getopt_stderr opts @
                        (if theHelpFlag (getopt_loop opts) then [] else Usage argv0)\<rparr>,
            if theHelpFlag (getopt_loop opts) then theRetCode (getopt_loop opts) else 1)"
    unfolding e by (simp add: Main_usage_eq)
  have c2: "calls (fst (Main K argv0 opts args w)) = calls w"
    and c3: "theClient (fst (Main K argv0 opts args w)) = theClient w"
    unfolding c1 by simp_all
  from c1 c2 c3 getopt_theHelpFlag [of opts] getopt_theRetCode [of opts]
  show ?thesis by blast
qed

text \<open>
  Claim C3, as amended, on four command lines. \<^verbatim>\<open>-h -x\<close>: the error channel holds the
  diagnostic of \<^verbatim>\<open>getopt\<close>, the banner and the listing are on \<^verbatim>\<open>std::cout\<close>, exit code
  1. \<^verbatim>\<open>-h -p\<close>, where the argument of \<^verbatim>\<open>-p\<close> is missing and \<^verbatim>\<open>getopt\<close> returns
  \<open>?\<close>: exit code 1. \<^verbatim>\<open>-h\<close> alone: exit code 0. \<^verbatim>\<open>-p 20000\<close> with no host: the
  banner on the error channel, the listing on \<^verbatim>\<open>std::cout\<close>, exit code 1.
\<close>

theorem usage_exit_witness:
  "theHelpFlag (getopt_loop [(CHR ''h'', [], []), (CHR ''?'', [], invalid_option_x)]) \<and>
   Main demo ''qfsadmin'' [(CHR ''h'', [], []), (CHR ''?'', [], invalid_option_x)]
        [''check_leases''] world0 =
     (world0\<lparr>cout := Usage ''qfsadmin'' @
                       concat (map (listing_line 31) sMetaAdminOpsMap),
             cerr := invalid_option_x\<rparr>, 1) \<and>
   snd (Main demo ''qfsadmin''
          [(CHR ''h'', [], []),
           (CHR ''?'', [], ''qfsadmin: option requires an argument -- p'' @ NL)] [] world0) = 1 \<and>
   snd (Main demo ''qfsadmin'' [(CHR ''h'', [], [])] [''check_leases''] world0) = 0 \<and>
   Main demo ''qfsadmin'' [(CHR ''p'', ''20000'', [])] [''check_leases''] world0 =
     (world0\<lparr>cout := concat (map (listing_line 31) sMetaAdminOpsMap),
             cerr := Usage ''qfsadmin''\<rparr>, 1)"
proof -
  let ?o1 = "[(CHR ''h'', [], []), (CHR ''?'', [], invalid_option_x)]"
  let ?o2 = "[(CHR ''h'', [], []),
              (CHR ''?'', [], ''qfsadmin: option requires an argument -- p'' @ NL)]"
  let ?o3 = "[(CHR ''h'', [], [])] :: (char \<times> string \<times> string) list"
  let ?o4 = "[(CHR ''p'', ''20000'', [])]"
  have h1: "theHelpFlag (getopt_loop ?o1)"
    and h2: "theHelpFlag (getopt_loop ?o2)"
    and h3: "theHelpFlag (getopt_loop ?o3)"
    and h4: "\<not> theHelpFlag (getopt_loop ?o4)"
    and s4: "theServerPtr (getopt_loop ?o4) = None"
    by (simp_all add: getopt_loop_def Options_init_def)
  from h1 have a1: "theHelpFlag (getopt_loop ?o1) \<or> theServerPtr (getopt_loop ?o1) = None \<or>
      thePort (getopt_loop ?o1) < 0" by simp
  from h2 have a2: "theHelpFlag (getopt_loop ?o2) \<or> theServerPtr (getopt_loop ?o2) = None \<or>
      thePort (getopt_loop ?o2) < 0" by simp
  from h3 have a3: "theHelpFlag (getopt_loop ?o3) \<or> theServerPtr (getopt_loop ?o3) = None \<or>
      thePort (getopt_loop ?o3) < 0" by simp
  from s4 have a4: "theHelpFlag (getopt_loop ?o4) \<or> theServerPtr (getopt_loop ?o4) = None \<or>
      thePort (getopt_loop ?o4) < 0" by simp
  have c1: "Main demo ''qfsadmin'' ?o1 [''check_leases''] world0 =
     (world0\<lparr>cout := Usage ''qfsadmin'' @
                       concat (map (listing_line 31) sMetaAdminOpsMap),
             cerr := invalid_option_x\<rparr>, 1)"
    using usage_exit [OF a1, of demo "''qfsadmin''" "[''check_leases'']" world0] h1
    by (simp add: max_key_width_eq world0_def getopt_stderr_def)
  have c2: "snd (Main demo ''qfsadmin'' ?o2 [] world0) = 1"
    using usage_exit [OF a2, of demo "''qfsadmin''" "[]" world0] h2 by simp
  have c3: "snd (Main demo ''qfsadmin'' ?o3 [''check_leases''] world0) = 0"
    using usage_exit [OF a3, of demo "''qfsadmin''" "[''check_leases'']" world0] h3 by simp
  have c4: "Main demo ''qfsadmin'' ?o4 [''check_leases''] world0 =
     (world0\<lparr>cout := concat (map (listing_line 31) sMetaAdminOpsMap),
             cerr := Usage ''qfsadmin''\<rparr>, 1)"
    using usage_exit [OF a4, of demo "''qfsadmin''" "[''check_leases'']" world0] h4
    by (simp add: max_key_width_eq world0_def getopt_stderr_def)
  from h1 c1 c2 c3 c4 show ?thesis by blast
qed

text \<open>
  Claim C3 as stated fails twice. With no option at all the host is missing and help
  was not requested: the error channel receives the banner and nothing more, and the
  listing goes to \<^verbatim>\<open>std::cout\<close>. With \<^verbatim>\<open>-h\<close> alone the host and the port are
  missing, and the exit code is 0.
\<close>

theorem usage_exit_counterexample:
  "theServerPtr (getopt_loop []) = None \<and>
   \<not> theHelpFlag (getopt_loop []) \<and>
   cerr (fst (Main demo ''qfsadmin'' [] [''check_leases''] world0)) =
     ''Usage: qfsadmin'' @ NL @
     '' -m|-s <meta server host name>'' @ NL @
     '' -p <port>'' @ NL @
     '' -f <config file name>'' @ NL @
     '' [-v]'' @ NL @
     '' --  <cmd> <cmd> ...Where cmd is one of the following:'' @ NL \<and>
   cout (fst (Main demo ''qfsadmin'' [] [''check_leases''] world0)) =
     concat (map (listing_line 31) sMetaAdminOpsMap) \<and>
   listing_line 31 (''check_leases'', ''CHECK_LEASES'', CMD_META_CHECK_LEASES,
                    ''debug: run chunk leases check'') =
     ''                   check_leases -- debug: run chunk leases check'' @ NL \<and>
   theHelpFlag (getopt_loop [(CHR ''h'', [], [])]) \<and>
   theServerPtr (getopt_loop [(CHR ''h'', [], [])]) = None \<and>
   thePort (getopt_loop [(CHR ''h'', [], [])]) = - 1 \<and>
   snd (Main demo ''qfsadmin'' [(CHR ''h'', [], [])] [] world0) = 0"
proof -
  have "listing_line 31 (''check_leases'', ''CHECK_LEASES'', CMD_META_CHECK_LEASES,
                    ''debug: run chunk leases check'') =
     ''                   check_leases -- debug: run chunk leases check'' @ NL"
    by code_simp
  then show ?thesis
    by (simp add: Main_def Main_usage_def getopt_loop_def getopt_stderr_def Options_init_def
        c_str_def Usage_def CmdHelp_None_listing max_key_width_eq world0_def Let_def)
qed

section \<open>The port argument and the content length bound\<close>

text \<open>
  Claim C9, as amended. A port argument in which \<^verbatim>\<open>atoi\<close> finds no digit (after
  optional white space and one optional sign) is parsed to 0. When it is the last
  \<^verbatim>\<open>-p\<close> option, a host was given and help was not requested, the port check passes:
  the run initialises the logger and sets up the client for port 0, and, if the set-up
  succeeds, sets the content length bound and executes the commands.
\<close>

theorem port_without_digits:
  assumes "no_digits arg"
    and "opts = pre @ (CHR ''p'', arg, d) # post" and "CHR ''p'' \<notin> set (map fst post)"
    and "theServerPtr (getopt_loop opts) = Some srv"
    and "\<not> theHelpFlag (getopt_loop opts)"
  shows "atoi arg = 0 \<and> thePort (getopt_loop opts) = 0 \<and>
         calls (fst (Main K argv0 opts args w)) = calls w @
           [MsgLogger_Init (if theVerboseLoggingFlag (getopt_loop opts) then kLogLevelDEBUG
                            else kLogLevelINFO),
            MonClient_SetParameters \<lparr>hostname = c_str srv, port = 0\<rparr>
              (theConfigFileNamePtr (getopt_loop opts))] @
           (if fst (SetParameters K \<lparr>hostname = c_str srv, port = 0\<rparr>
                      (theConfigFileNamePtr (getopt_loop opts)) (theClient w)) < 0
            then []
            else MonClient_SetMaxContentLength 536870912 #
                 concat (map (calls_of \<lparr>hostname = c_str srv, port = 0\<rparr>) args))"
proof -
  have a: "atoi arg = 0" by (rule atoi_no_digits [OF assms(1)])
  have p: "thePort (getopt_loop opts) = 0"
    unfolding assms(2) using getopt_thePort_last [OF assms(3)] a by simp
  show ?thesis
    using a p assms(4,5) Main_calls [of K argv0 opts args w] by (simp add: Let_def)
qed

text \<open>
  Claim C9, as amended, on \<^verbatim>\<open>-s localhost -p abc -v check_leases\<close>.
\<close>

theorem port_without_digits_witness:
  "no_digits ''abc'' \<and> atoi ''abc'' = 0 \<and>
   theServerPtr (getopt_loop [(CHR ''s'', ''localhost'', []), (CHR ''p'', ''abc'', []), (CHR ''v'', [], [])]) =
     Some ''localhost'' \<and>
   calls (fst (Main demo ''qfsadmin''
                 [(CHR ''s'', ''localhost'', []), (CHR ''p'', ''abc'', []), (CHR ''v'', [], [])]
                 [''check_leases''] world0)) =
     [MsgLogger_Init kLogLevelDEBUG,
      MonClient_SetParameters \<lparr>hostname = ''localhost'', port = 0\<rparr> None,
      MonClient_SetMaxContentLength 536870912,
      MonClient_Execute \<lparr>hostname = ''localhost'', port = 0\<rparr>
        \<lparr>op = CMD_META_CHECK_LEASES, name = ''CHECK_LEASES''\<rparr>]"
proof -
  let ?opts = "[(CHR ''s'', ''localhost'', []), (CHR ''p'', ''abc'', []), (CHR ''v'', [], [])]"
  have h1: "no_digits ''abc''" by (simp add: no_digits_def isspace_def isdigit_def)
  have h2: "?opts = [(CHR ''s'', ''localhost'', [])] @ (CHR ''p'', ''abc'', []) # [(CHR ''v'', [], [])]"
    by simp
  have h3: "CHR ''p'' \<notin> set (map fst [(CHR ''v'', [], [])])" by simp
  have h4: "theServerPtr (getopt_loop ?opts) = Some ''localhost''"
    by (simp add: getopt_loop_def Options_init_def)
  have h5: "\<not> theHelpFlag (getopt_loop ?opts)"
    by (simp add: getopt_loop_def Options_init_def)
  have v: "theVerboseLoggingFlag (getopt_loop ?opts)"
    and f: "theConfigFileNamePtr (getopt_loop ?opts) = None"
    by (simp_all add: getopt_loop_def Options_init_def)
  have c: "calls_of \<lparr>hostname = ''localhost'', port = 0\<rparr> ''check_leases'' =
           [MonClient_Execute \<lparr>hostname = ''localhost'', port = 0\<rparr>
              \<lparr>op = CMD_META_CHECK_LEASES, name = ''CHECK_LEASES''\<rparr>]"
    by (simp add: calls_of_def op_of_def sMetaAdminOpsMap_eq tolower_def char_to_int_def
        char_of_def)
  note th = port_without_digits [OF h1 h2 h3 h4 h5, of demo "''qfsadmin''" "[''check_leases'']"
      world0]
  have a: "atoi ''abc'' = 0" using th by (rule conjunct1)
  have "calls (fst (Main demo ''qfsadmin'' ?opts [''check_leases''] world0)) =
     [MsgLogger_Init kLogLevelDEBUG,
      MonClient_SetParameters \<lparr>hostname = ''localhost'', port = 0\<rparr> None,
      MonClient_SetMaxContentLength 536870912,
      MonClient_Execute \<lparr>hostname = ''localhost'', port = 0\<rparr>
        \<lparr>op = CMD_META_CHECK_LEASES, name = ''CHECK_LEASES''\<rparr>]"
    using th [THEN conjunct2, THEN conjunct2]
    by (simp add: v f c c_str_def demo_def world0_def)
  with h1 a h4 show ?thesis by blast
qed

text \<open>
  Claim C9 as stated fails: \<^verbatim>\<open>-1x\<close> and \<^verbatim>\<open>12abc\<close> are not numbers, and
  \<^verbatim>\<open>atoi\<close> gives \<open>-1\<close> and \<open>12\<close> for them, not 0; with \<^verbatim>\<open>-p -1x\<close> the port
  is negative and the run ends with the usage text and exit code 1.
\<close>

theorem port_without_digits_counterexample:
  "atoi ''-1x'' = - 1 \<and> atoi ''12abc'' = 12 \<and>
   Main demo ''qfsadmin'' [(CHR ''s'', ''localhost'', []), (CHR ''p'', ''-1x'', [])]
        [''check_leases''] world0 =
     (world0\<lparr>cout := concat (map (listing_line 31) sMetaAdminOpsMap),
             cerr := Usage ''qfsadmin''\<rparr>, 1)"
  by (simp add: Main_def Main_usage_def getopt_loop_def getopt_stderr_def Options_init_def
      atoi_def strtol10_def isspace_def isdigit_def
      CmdHelp_None_listing max_key_width_eq world0_def Let_def)

text \<open>
  Claim C10. \<^verbatim>\<open>512 << 20\<close> is 536870912 in 32-bit \<^verbatim>\<open>int\<close> arithmetic. The calls
  of a run are: none when the command line is rejected; otherwise the logger's
  initialisation and \<^verbatim>\<open>SetParameters\<close>, and, only if that returned a status that is not
  negative, \<^verbatim>\<open>SetMaxContentLength(536870912)\<close> followed by the \<^verbatim>\<open>Execute\<close> calls of
  the command arguments. The calls of the command arguments are \<^verbatim>\<open>Execute\<close> calls
  only, so the bound is set exactly once in such a run, before every command, and
  never in any other run.
\<close>

theorem max_content_length_once:
  "sint (push_bit 20 (512 :: 32 word)) = 536870912 \<and>
   calls (fst (Main K argv0 opts args w)) = calls w @
     (let st = getopt_loop opts
      in case theServerPtr st of
           None \<Rightarrow> []
         | Some srv \<Rightarrow>
             if theHelpFlag st \<or> thePort st < 0 then []
             else
               let theLocation = \<lparr>hostname = c_str srv, port = thePort st\<rparr>
               in [MsgLogger_Init (if theVerboseLoggingFlag st then kLogLevelDEBUG
                                   else kLogLevelINFO),
                   MonClient_SetParameters theLocation (theConfigFileNamePtr st)] @
                  (if fst (SetParameters K theLocation (theConfigFileNamePtr st) (theClient w)) < 0
                   then []
                   else MonClient_SetMaxContentLength 536870912 #
                        concat (map (calls_of theLocation) args))) \<and>
   filter is_SetMaxContentLength (concat (map (calls_of loc) args)) = [] \<and>
   filter is_Execute (concat (map (calls_of loc) args)) = concat (map (calls_of loc) args) \<and>
   filter is_SetMaxContentLength (drop (length (calls w)) (calls (fst (Main K argv0 opts args w)))) =
     (let st = getopt_loop opts
      in case theServerPtr st of
           None \<Rightarrow> []
         | Some srv \<Rightarrow>
             if theHelpFlag st \<or> thePort st < 0 \<or>
                fst (SetParameters K \<lparr>hostname = c_str srv, port = thePort st\<rparr>
                       (theConfigFileNamePtr st) (theClient w)) < 0
             then []
             else [MonClient_SetMaxContentLength 536870912])"
proof -
  have e: "filter is_Execute (concat (map (calls_of loc) args)) = concat (map (calls_of loc) args)"
    by (induction args) (simp_all add: calls_of_def is_Execute_def split: option.splits)
  have f: "filter is_SetMaxContentLength
             (drop (length (calls w)) (calls (fst (Main K argv0 opts args w)))) =
     (let st = getopt_loop opts
      in case theServerPtr st of
           None \<Rightarrow> []
         | Some srv \<Rightarrow>
             if theHelpFlag st \<or> thePort st < 0 \<or>
                fst (SetParameters K \<lparr>hostname = c_str srv, port = thePort st\<rparr>
                       (theConfigFileNamePtr st) (theClient w)) < 0
             then []
             else [MonClient_SetMaxContentLength 536870912])"
    unfolding Main_calls
    by (simp add: Let_def calls_of_Execute is_SetMaxContentLength_def split: option.splits)
  from shift_512 Main_calls [of K argv0 opts args w] calls_of_Execute [of loc args] e f
  show ?thesis by blast
qed

section \<open>More concrete runs\<close>

lemma calls_of_examples:
  "calls_of loc ''open_files'' =
     [MonClient_Execute loc \<lparr>op = CMD_META_OPEN_FILES, name = ''OPEN_FILES''\<rparr>]"
  "calls_of loc ''bogus'' = []"
  "calls_of loc ''check_leases'' =
     [MonClient_Execute loc \<lparr>op = CMD_META_CHECK_LEASES, name = ''CHECK_LEASES''\<rparr>]"
  "complaints_of ''open_files'' = []"
  "complaints_of ''bogus'' = ''no such command: bogus'' @ NL"
  "complaints_of ''check_leases'' = []"
  by (simp_all add: calls_of_def complaints_of_def op_of_def c_str_def sMetaAdminOpsMap_eq
      tolower_def char_to_int_def char_of_def)

text \<open>
  Claim C4 on the arguments \<^verbatim>\<open>open_files bogus check_leases\<close>, where the call for
  \<^verbatim>\<open>open_files\<close> fails: two calls, in order, and one "no such command" line.
\<close>

theorem no_short_circuit_witness:
  "calls (fst (Main_loop demo \<lparr>hostname = ''localhost'', port = 20000\<rparr>
                 [''open_files'', ''bogus'', ''check_leases''] (world0, 0))) =
     [MonClient_Execute \<lparr>hostname = ''localhost'', port = 20000\<rparr>
        \<lparr>op = CMD_META_OPEN_FILES, name = ''OPEN_FILES''\<rparr>,
      MonClient_Execute \<lparr>hostname = ''localhost'', port = 20000\<rparr>
        \<lparr>op = CMD_META_CHECK_LEASES, name = ''CHECK_LEASES''\<rparr>] \<and>
   cerr (fst (Main_loop demo \<lparr>hostname = ''localhost'', port = 20000\<rparr>
                [''open_files'', ''bogus'', ''check_leases''] (world0, 0))) =
     ''no such command: bogus'' @ NL \<and>
   fst (Execute demo \<lparr>hostname = ''localhost'', port = 20000\<rparr>
          \<lparr>op = CMD_META_OPEN_FILES, name = ''OPEN_FILES''\<rparr> 0) = - 5"
proof -
  note th = no_short_circuit [of demo "\<lparr>hostname = ''localhost'', port = 20000\<rparr>"
      "[''open_files'', ''bogus'', ''check_leases'']" "(world0, 0)" "[]" "''bogus''" "[]"]
  have c1: "calls (fst (Main_loop demo \<lparr>hostname = ''localhost'', port = 20000\<rparr>
                 [''open_files'', ''bogus'', ''check_leases''] (world0, 0))) =
     [MonClient_Execute \<lparr>hostname = ''localhost'', port = 20000\<rparr>
        \<lparr>op = CMD_META_OPEN_FILES, name = ''OPEN_FILES''\<rparr>,
      MonClient_Execute \<lparr>hostname = ''localhost'', port = 20000\<rparr>
        \<lparr>op = CMD_META_CHECK_LEASES, name = ''CHECK_LEASES''\<rparr>]"
    using th [THEN conjunct1] by (simp add: calls_of_examples world0_def)
  have c2: "cerr (fst (Main_loop demo \<lparr>hostname = ''localhost'', port = 20000\<rparr>
                [''open_files'', ''bogus'', ''check_leases''] (world0, 0))) =
     ''no such command: bogus'' @ NL"
    using th [THEN conjunct2, THEN conjunct1] by (simp add: calls_of_examples world0_def)
  have c3: "fst (Execute demo \<lparr>hostname = ''localhost'', port = 20000\<rparr>
          \<lparr>op = CMD_META_OPEN_FILES, name = ''OPEN_FILES''\<rparr> 0) = - 5"
    by (simp add: demo_def demo_Execute_def)
  from c1 c2 c3 show ?thesis by blast
qed

text \<open>
  Claim C10 on two runs: one whose set-up succeeds, and one with an empty host name,
  whose set-up fails.
\<close>

theorem max_content_length_once_witness:
  "calls (fst (Main demo ''qfsadmin'' [(CHR ''m'', ''localhost'', []), (CHR ''p'', ''20000'', [])]
                 [''check_leases'', ''open_files''] world0)) =
     [MsgLogger_Init kLogLevelINFO,
      MonClient_SetParameters \<lparr>hostname = ''localhost'', port = 20000\<rparr> None,
      MonClient_SetMaxContentLength 536870912,
      MonClient_Execute \<lparr>hostname = ''localhost'', port = 20000\<rparr>
        \<lparr>op = CMD_META_CHECK_LEASES, name = ''CHECK_LEASES''\<rparr>,
      MonClient_Execute \<lparr>hostname = ''localhost'', port = 20000\<rparr>
        \<lparr>op = CMD_META_OPEN_FILES, name = ''OPEN_FILES''\<rparr>] \<and>
   calls (fst (Main demo ''qfsadmin'' [(CHR ''m'', [], []), (CHR ''p'', ''20000'', [])]
                 [''check_leases'', ''open_files''] world0)) =
     [MsgLogger_Init kLogLevelINFO,
      MonClient_SetParameters \<lparr>hostname = [], port = 20000\<rparr> None]"
proof -
  have g1: "getopt_loop [(CHR ''m'', ''localhost'', []), (CHR ''p'', ''20000'', [])] =
     \<lparr>theHelpFlag = False, theServerPtr = Some ''localhost'', theConfigFileNamePtr = None,
      thePort = 20000, theVerboseLoggingFlag = False, theRetCode = 0\<rparr>"
    by (simp add: getopt_loop_def Options_init_def atoi_def strtol10_def isspace_def isdigit_def)
  have g2: "getopt_loop [(CHR ''m'', [], []), (CHR ''p'', ''20000'', [])] =
     \<lparr>theHelpFlag = False, theServerPtr = Some [], theConfigFileNamePtr = None,
      thePort = 20000, theVerboseLoggingFlag = False, theRetCode = 0\<rparr>"
    by (simp add: getopt_loop_def Options_init_def atoi_def strtol10_def isspace_def isdigit_def)
  have c1: "calls (fst (Main demo ''qfsadmin'' [(CHR ''m'', ''localhost'', []), (CHR ''p'', ''20000'', [])]
                 [''check_leases'', ''open_files''] world0)) =
     [MsgLogger_Init kLogLevelINFO,
      MonClient_SetParameters \<lparr>hostname = ''localhost'', port = 20000\<rparr> None,
      MonClient_SetMaxContentLength 536870912,
      MonClient_Execute \<lparr>hostname = ''localhost'', port = 20000\<rparr>
        \<lparr>op = CMD_META_CHECK_LEASES, name = ''CHECK_LEASES''\<rparr>,
      MonClient_Execute \<lparr>hostname = ''localhost'', port = 20000\<rparr>
        \<lparr>op = CMD_META_OPEN_FILES, name = ''OPEN_FILES''\<rparr>]"
    using max_content_length_once [of demo "''qfsadmin''"
        "[(CHR ''m'', ''localhost'', []), (CHR ''p'', ''20000'', [])]"
        "[''check_leases'', ''open_files'']" world0, THEN conjunct2, THEN conjunct1]
    by (simp add: g1 calls_of_examples c_str_def demo_def world0_def Let_def)
  have c2: "calls (fst (Main demo ''qfsadmin'' [(CHR ''m'', [], []), (CHR ''p'', ''20000'', [])]
                 [''check_leases'', ''open_files''] world0)) =
     [MsgLogger_Init kLogLevelINFO,
      MonClient_SetParameters \<lparr>hostname = [], port = 20000\<rparr> None]"
    using max_content_length_once [of demo "''qfsadmin''"
        "[(CHR ''m'', [], []), (CHR ''p'', ''20000'', [])]"
        "[''check_leases'', ''open_files'']" world0, THEN conjunct2, THEN conjunct1]
    by (simp add: g2 c_str_def demo_def world0_def Let_def)
  from c1 c2 show ?thesis by blast
qed

end
